theory Spec2Isabelle
  imports Main "HOL-Library.Word"
begin

unbundle bit_operations_syntax

section \<open>Node's \<open>crypto\<close> primitives used by the PKCE helpers\<close>

text \<open>
  The PKCE helpers of the initiation route call three primitives of Node's \<open>crypto\<close>
  module: \<open>randomBytes(n)\<close>, \<open>createHash("sha256").update(s).digest("base64url")\<close> and
  \<open>Buffer.toString("base64url")\<close>. Random bytes are an input of the model (a field of the
  environment, below). SHA-256 (FIPS 180-4) and the unpadded URL-safe base64 alphabet
  (RFC 4648, section 5, as Node's \<open>"base64url"\<close> encoding writes it) are written out, so
  that a challenge can be computed.

  A JavaScript string is modelled by \<^typ>\<open>string\<close>, read as its UTF-8 bytes (the
  verifiers and states of this program are ASCII).
\<close>

type_synonym byte = "8 word"
type_synonym word32 = "32 word"

subsection \<open>SHA-256\<close>

definition rotr :: "nat \<Rightarrow> word32 \<Rightarrow> word32" where
  "rotr n x = drop_bit n x OR push_bit (32 - n) x"

definition Ch :: "word32 \<Rightarrow> word32 \<Rightarrow> word32 \<Rightarrow> word32" where
  "Ch x y z = (x AND y) XOR (NOT x AND z)"

definition Maj :: "word32 \<Rightarrow> word32 \<Rightarrow> word32 \<Rightarrow> word32" where
  "Maj x y z = (x AND y) XOR (x AND z) XOR (y AND z)"

definition Sigma0 :: "word32 \<Rightarrow> word32" where
  "Sigma0 x = rotr 2 x XOR rotr 13 x XOR rotr 22 x"

definition Sigma1 :: "word32 \<Rightarrow> word32" where
  "Sigma1 x = rotr 6 x XOR rotr 11 x XOR rotr 25 x"

definition sigma0 :: "word32 \<Rightarrow> word32" where
  "sigma0 x = rotr 7 x XOR rotr 18 x XOR drop_bit 3 x"

definition sigma1 :: "word32 \<Rightarrow> word32" where
  "sigma1 x = rotr 17 x XOR rotr 19 x XOR drop_bit 10 x"

text \<open>
  The round constants are the first thirty-two bits of the fractional parts of the cube
  roots of the first sixty-four primes; the initial hash value, of the square roots of the
  first eight primes.
\<close>

definition sha256_K :: "word32 list" where
  "sha256_K =
    [1116352408, 1899447441, 3049323471, 3921009573, 961987163, 1508970993,
     2453635748, 2870763221, 3624381080, 310598401, 607225278, 1426881987,
     1925078388, 2162078206, 2614888103, 3248222580, 3835390401, 4022224774,
     264347078, 604807628, 770255983, 1249150122, 1555081692, 1996064986,
     2554220882, 2821834349, 2952996808, 3210313671, 3336571891, 3584528711,
     113926993, 338241895, 666307205, 773529912, 1294757372, 1396182291,
     1695183700, 1986661051, 2177026350, 2456956037, 2730485921, 2820302411,
     3259730800, 3345764771, 3516065817, 3600352804, 4094571909, 275423344,
     430227734, 506948616, 659060556, 883997877, 958139571, 1322822218,
     1537002063, 1747873779, 1955562222, 2024104815, 2227730452, 2361852424,
     2428436474, 2756734187, 3204031479, 3329325298]"

definition sha256_H0 :: "word32 list" where
  "sha256_H0 =
    [1779033703, 3144134277, 1013904242, 2773480762,
     1359893119, 2600822924, 528734635, 1541459225]"

text \<open>The message schedule: sixteen words of the block, extended to sixty-four.\<close>

fun schedule :: "nat \<Rightarrow> word32 list \<Rightarrow> word32 list" where
  "schedule 0 w = w"
| "schedule (Suc n) w =
     schedule n (w @ [sigma1 (w ! (length w - 2)) + w ! (length w - 7)
                      + sigma0 (w ! (length w - 15)) + w ! (length w - 16)])"

text \<open>One round on the working variables \<open>[a, b, c, d, e, f, g, h]\<close>.\<close>

fun sha256_round :: "word32 \<times> word32 \<Rightarrow> word32 list \<Rightarrow> word32 list" where
  "sha256_round (k, w) [a, b, c, d, e, f, g, h] =
     (let t1 = h + Sigma1 e + Ch e f g + k + w;
          t2 = Sigma0 a + Maj a b c
      in [t1 + t2, a, b, c, d + t1, e, f, g])"
| "sha256_round (k, w) vs = vs"

definition compress :: "word32 list \<Rightarrow> word32 list \<Rightarrow> word32 list" where
  "compress hs block =
     map2 (+) hs (fold sha256_round (zip sha256_K (schedule 48 block)) hs)"

fun be32 :: "byte list \<Rightarrow> word32 list" where
  "be32 (a # b # c # d # rest) =
     (push_bit 24 (ucast a) OR push_bit 16 (ucast b) OR push_bit 8 (ucast c) OR ucast d)
       # be32 rest"
| "be32 rest = []"

definition bytes32 :: "word32 \<Rightarrow> byte list" where
  "bytes32 x = [ucast (drop_bit 24 x), ucast (drop_bit 16 x), ucast (drop_bit 8 x), ucast x]"

definition be64 :: "64 word \<Rightarrow> byte list" where
  "be64 n = map (\<lambda>i. ucast (drop_bit (8 * i) n)) [7, 6, 5, 4, 3, 2, 1, 0]"

definition sha256_pad :: "byte list \<Rightarrow> byte list" where
  "sha256_pad msg =
     msg @ [0x80] @ replicate ((119 - length msg mod 64) mod 64) 0 @ be64 (8 * of_nat (length msg))"

fun sha256_blocks :: "word32 list \<Rightarrow> byte list \<Rightarrow> word32 list" where
  "sha256_blocks hs bs =
     (if length bs < 64 then hs
      else sha256_blocks (compress hs (be32 (take 64 bs))) (drop 64 bs))"

declare sha256_blocks.simps [simp del]

definition sha256 :: "byte list \<Rightarrow> byte list" where
  "sha256 msg = concat (map bytes32 (sha256_blocks sha256_H0 (sha256_pad msg)))"

subsection \<open>The \<open>base64url\<close> encoding of a buffer\<close>

definition base64url_alphabet :: string where
  "base64url_alphabet =
     ''ABCDEFGHIJKLMNOPQRSTUVWXYZabcdefghijklmnopqrstuvwxyz0123456789-_''"

definition b64 :: "byte \<Rightarrow> char" where
  "b64 i = base64url_alphabet ! unat (i AND 63)"

fun base64url :: "byte list \<Rightarrow> string" where
  "base64url (a # b # c # rest) =
     [b64 (drop_bit 2 a),
      b64 (push_bit 4 (a AND 3) OR drop_bit 4 b),
      b64 (push_bit 2 (b AND 15) OR drop_bit 6 c),
      b64 c] @ base64url rest"
| "base64url [a, b] =
     [b64 (drop_bit 2 a), b64 (push_bit 4 (a AND 3) OR drop_bit 4 b), b64 (push_bit 2 (b AND 15))]"
| "base64url [a] = [b64 (drop_bit 2 a), b64 (push_bit 4 (a AND 3))]"
| "base64url [] = []"

definition utf8 :: "string \<Rightarrow> byte list" where
  "utf8 s = map of_char s"

subsection \<open>The hash object and buffers\<close>

text \<open>
  \<open>crypto.createHash(algorithm)\<close> gives an object that collects the data of its
  \<open>update\<close> calls; \<open>digest(encoding)\<close> hashes what was collected and encodes the digest;
  \<open>buffer.toString(encoding)\<close> encodes a buffer. The program names one algorithm,
  \<open>"sha256"\<close>, and one encoding, \<open>"base64url"\<close>: they are the only values of the two
  types below.
\<close>

datatype hash_algorithm = SHA256

datatype encoding = Base64url

record hash_object =
  algorithm :: hash_algorithm
  collected :: "byte list"

definition createHash :: "hash_algorithm \<Rightarrow> hash_object" where
  "createHash alg = \<lparr>algorithm = alg, collected = []\<rparr>"

definition update :: "hash_object \<Rightarrow> string \<Rightarrow> hash_object" where
  "update h s = h\<lparr>collected := collected h @ utf8 s\<rparr>"

definition toString :: "byte list \<Rightarrow> encoding \<Rightarrow> string" where
  "toString buf enc = (case enc of Base64url \<Rightarrow> base64url buf)"

definition digest :: "hash_object \<Rightarrow> encoding \<Rightarrow> string" where
  "digest h enc = toString (case algorithm h of SHA256 \<Rightarrow> sha256 (collected h)) enc"

section \<open>Data model\<close>

text \<open>
  The two tables of the migration. The columns \<open>createdAt\<close> and \<open>updatedAt\<close> are
  filled by the storage layer and never read by the program; they are left out. An instant
  (\<open>DATETIME\<close>, a JavaScript \<open>Date\<close>) is its number of milliseconds since the epoch.
  \<open>CodeVerifier.state\<close> has a unique index and \<open>id\<close> is the primary key of both tables.
\<close>

record code_verifier =
  cv_id :: string
  cv_state :: string
  cv_verifier :: string

record customer_access_token =
  tok_id :: string
  shop :: string
  accessToken :: string
  expiresAt :: "int option"

text \<open>
  A parsed URL (the object \<open>new URL(s)\<close> gives): the program reads \<open>host\<close> and
  \<open>searchParams\<close>, and writes \<open>searchParams\<close>. The search parameters are a list of
  name-value pairs, in order, where a name can occur more than once.
\<close>

record url =
  protocol :: string
  host :: string
  pathname :: string
  searchParams :: "(string \<times> string) list"
  fragment :: string

record request =
  request_url :: string
  Cookie :: "string option"

text \<open>The second argument of \<open>fetch\<close>; the body is a \<open>URLSearchParams\<close> form.\<close>

record fetch_init =
  http_method :: string
  headers :: "(string \<times> string) list"
  body :: "(string \<times> string) list"

text \<open>
  A JSON document received from the provider is read through the five properties the
  program looks at; \<open>None\<close> is JavaScript's \<open>undefined\<close> of an absent property. A
  property that is present has the type the provider documents (a string, and a whole
  number of seconds for \<open>expires_in\<close>).
\<close>

record json_object =
  authorization_endpoint :: "string option"
  token_endpoint :: "string option"
  graphql_api :: "string option"
  access_token :: "string option"
  expires_in :: "int option"

text \<open>
  An HTTP response: \<open>response.json()\<close> rejects (\<open>Inl\<close> with the message) when the body
  is not JSON.
\<close>

record http_response =
  ok :: bool
  statusText :: string
  body_text :: string
  json :: "string + json_object"

text \<open>What a loader returns: a redirect, or data for the route's component.\<close>

datatype js_value = JUndefined | JBool bool | JStr string | JIsoDate int

datatype location = Href url | Path string

datatype loader_result =
    Redirect location "(string \<times> string) list"
  | Data "(string \<times> js_value) list"

section \<open>Effects\<close>

text \<open>
  Every call that leaves the loader is recorded, in order: the calls of the storage client,
  the network requests and the server-side log.
\<close>

datatype event =
    CodeVerifier_create string string
  | CodeVerifier_findUnique string
  | CodeVerifier_delete string
  | CustomerAccessToken_create string "string option" "int option"
  | CustomerAccessToken_findUnique string
  | Fetch string "fetch_init option"
  | Console_error string string

record world =
  codeVerifiers :: "code_verifier list"
  customerAccessTokens :: "customer_access_token list"
  effects :: "event list"

datatype prisma_error = UniqueConstraintFailed | RecordNotFound | MissingArgument

text \<open>
  The environment of one request: the configuration (\<open>process.env\<close>), the clock, the
  random source, the network, and the library functions whose results the program uses as
  they are: the URL parser, the cookie session storage of the framework, the identifier the
  storage layer gives a new row, and the messages of the storage layer's errors. A thrown
  error is modelled by its message, which is all the handlers read.
\<close>

record env =
  SHOP_STOREFRONT_DOMAIN :: string
  SHOPIFY_API_KEY :: string
  now :: int
  randomBytes :: "nat \<Rightarrow> byte list"
  fetch :: "string \<Rightarrow> fetch_init option \<Rightarrow> string + http_response"
  new_URL :: "string \<Rightarrow> string + url"
  getSession :: "string option \<Rightarrow> (string \<rightharpoonup> string)"
  commitSession :: "(string \<rightharpoonup> string) \<Rightarrow> string"
  generated_id :: string
  prisma_message :: "prisma_error \<Rightarrow> string"

text \<open>
  An asynchronous computation: it runs on the world and either throws or resolves. The
  loaders await each call before the next, so \<open>await\<close> is sequencing.
\<close>

type_synonym 'a io = "world \<Rightarrow> (string + 'a) \<times> world"

definition resolve :: "'a \<Rightarrow> 'a io" where
  "resolve x w = (Inr x, w)"

definition throw :: "string \<Rightarrow> 'a io" where
  "throw msg w = (Inl msg, w)"

definition settle :: "string + 'a \<Rightarrow> 'a io" where
  "settle r w = (r, w)"

definition await :: "'a io \<Rightarrow> ('a \<Rightarrow> 'b io) \<Rightarrow> 'b io" where
  "await m f w = (case m w of (Inl msg, w') \<Rightarrow> (Inl msg, w') | (Inr x, w') \<Rightarrow> f x w')"

definition try_catch :: "'a io \<Rightarrow> (string \<Rightarrow> world \<Rightarrow> 'a \<times> world) \<Rightarrow> world \<Rightarrow> 'a \<times> world" where
  "try_catch block handler w =
     (case block w of (Inl msg, w') \<Rightarrow> handler msg w' | (Inr x, w') \<Rightarrow> (x, w'))"

definition perform :: "event \<Rightarrow> world \<Rightarrow> world" where
  "perform e w = w\<lparr>effects := effects w @ [e]\<rparr>"

definition console_error :: "string \<Rightarrow> string \<Rightarrow> world \<Rightarrow> world" where
  "console_error label msg w = perform (Console_error label msg) w"

definition do_fetch :: "env \<Rightarrow> string \<Rightarrow> fetch_init option \<Rightarrow> http_response io" where
  "do_fetch env u init w = (fetch env u init, perform (Fetch u init) w)"

text \<open>JavaScript's string of a property that may be \<open>undefined\<close>.\<close>

definition js_string :: "string option \<Rightarrow> string" where
  "js_string x = (case x of None \<Rightarrow> ''undefined'' | Some s \<Rightarrow> s)"

text \<open>\<open>!x\<close> for a value that is a string or \<open>null\<close>.\<close>

definition falsy :: "string option \<Rightarrow> bool" where
  "falsy x = (case x of None \<Rightarrow> True | Some s \<Rightarrow> s = [])"

subsection \<open>The storage client\<close>

text \<open>
  \<open>create\<close> throws when a unique column would be duplicated or a required argument is
  \<open>undefined\<close>; \<open>delete\<close> throws when no row matches; \<open>findUnique\<close> gives the row or
  \<open>null\<close>.
\<close>

definition codeVerifier_create :: "env \<Rightarrow> string \<Rightarrow> string \<Rightarrow> code_verifier io" where
  "codeVerifier_create env st v w =
     (let w' = perform (CodeVerifier_create st v) w;
          r = \<lparr>cv_id = generated_id env, cv_state = st, cv_verifier = v\<rparr>
      in case find (\<lambda>x. cv_id x = generated_id env \<or> cv_state x = st) (codeVerifiers w) of
           Some x \<Rightarrow> (Inl (prisma_message env UniqueConstraintFailed), w')
         | None \<Rightarrow> (Inr r, w'\<lparr>codeVerifiers := codeVerifiers w' @ [r]\<rparr>))"

definition codeVerifier_findUnique :: "string \<Rightarrow> code_verifier option io" where
  "codeVerifier_findUnique st w =
     (Inr (find (\<lambda>x. cv_state x = st) (codeVerifiers w)), perform (CodeVerifier_findUnique st) w)"

definition codeVerifier_delete :: "env \<Rightarrow> string \<Rightarrow> code_verifier io" where
  "codeVerifier_delete env st w =
     (let w' = perform (CodeVerifier_delete st) w
      in case find (\<lambda>x. cv_state x = st) (codeVerifiers w) of
           None \<Rightarrow> (Inl (prisma_message env RecordNotFound), w')
         | Some r \<Rightarrow>
             (Inr r, w'\<lparr>codeVerifiers := filter (\<lambda>x. cv_state x \<noteq> st) (codeVerifiers w')\<rparr>))"

definition customerAccessToken_create ::
  "env \<Rightarrow> string \<Rightarrow> string option \<Rightarrow> int option \<Rightarrow> customer_access_token io" where
  "customerAccessToken_create env sh tok expiry w =
     (let w' = perform (CustomerAccessToken_create sh tok expiry) w
      in case tok of
           None \<Rightarrow> (Inl (prisma_message env MissingArgument), w')
         | Some a \<Rightarrow>
            (case find (\<lambda>x. tok_id x = generated_id env) (customerAccessTokens w) of
               Some x \<Rightarrow> (Inl (prisma_message env UniqueConstraintFailed), w')
             | None \<Rightarrow>
                (let t = \<lparr>tok_id = generated_id env, shop = sh, accessToken = a,
                          expiresAt = expiry\<rparr>
                 in (Inr t, w'\<lparr>customerAccessTokens := customerAccessTokens w' @ [t]\<rparr>))))"

definition customerAccessToken_findUnique :: "string \<Rightarrow> customer_access_token option io" where
  "customerAccessToken_findUnique i w =
     (Inr (find (\<lambda>x. tok_id x = i) (customerAccessTokens w)),
      perform (CustomerAccessToken_findUnique i) w)"

subsection \<open>\<open>URLSearchParams\<close>\<close>

text \<open>
  \<open>get(name)\<close> is the value of the first pair with that name, or \<open>null\<close>.
  \<open>set(name, value)\<close> gives the first pair with that name the value and removes the
  other pairs with that name; without such a pair it appends one.
\<close>

definition searchParams_get :: "(string \<times> string) list \<Rightarrow> string \<Rightarrow> string option" where
  "searchParams_get ps name = map_of ps name"

definition searchParams_getAll :: "(string \<times> string) list \<Rightarrow> string \<Rightarrow> string list" where
  "searchParams_getAll ps name = map snd (filter (\<lambda>p. fst p = name) ps)"

fun searchParams_set :: "string \<Rightarrow> string \<Rightarrow> (string \<times> string) list \<Rightarrow> (string \<times> string) list" where
  "searchParams_set name v [] = [(name, v)]"
| "searchParams_set name v (p # ps) =
     (if fst p = name then (name, v) # filter (\<lambda>q. fst q \<noteq> name) ps
      else p # searchParams_set name v ps)"

section \<open>The session helpers (\<open>app/sessions.server.js\<close>)\<close>

definition getCustomerTokenId :: "env \<Rightarrow> request \<Rightarrow> string option" where
  "getCustomerTokenId env req =
     (let session = getSession env (Cookie req) in session ''customerTokenId'')"

definition setCustomerTokenId :: "env \<Rightarrow> request \<Rightarrow> string \<Rightarrow> string" where
  "setCustomerTokenId env req tokenId =
     (let session = getSession env (Cookie req)
      in commitSession env (session(''customerTokenId'' \<mapsto> tokenId)))"

section \<open>The initiation route (\<open>/customer-account-api/auth\<close>)\<close>

definition generateCodeVerifier :: "env \<Rightarrow> string" where
  "generateCodeVerifier env = toString (randomBytes env 32) Base64url"

definition generateCodeChallenge :: "string \<Rightarrow> string" where
  "generateCodeChallenge verifier = digest (update (createHash SHA256) verifier) Base64url"

definition generateState :: "env \<Rightarrow> string" where
  "generateState env = toString (randomBytes env 16) Base64url"

definition openidConfigUrl :: "env \<Rightarrow> string" where
  "openidConfigUrl env = ''https://'' @ SHOP_STOREFRONT_DOMAIN env @ ''/.well-known/openid-configuration''"

definition callbackUrl :: "url \<Rightarrow> string" where
  "callbackUrl u = ''https://'' @ host u @ ''/customer-account-api/callback''"

text \<open>
  The seven \<open>authUrl.searchParams.set\<close> calls on the parsed authorization endpoint, in
  the order of the source.
\<close>

definition build_auth_url :: "url \<Rightarrow> string \<Rightarrow> string \<Rightarrow> string \<Rightarrow> string \<Rightarrow> url" where
  "build_auth_url authUrl clientId callback state codeChallenge =
     (let p1 = searchParams_set ''client_id'' clientId (searchParams authUrl);
          p2 = searchParams_set ''response_type'' ''code'' p1;
          p3 = searchParams_set ''redirect_uri'' callback p2;
          p4 = searchParams_set ''scope'' ''openid email customer-account-api:full'' p3;
          p5 = searchParams_set ''state'' state p4;
          p6 = searchParams_set ''code_challenge'' codeChallenge p5;
          p7 = searchParams_set ''code_challenge_method'' ''S256'' p6
      in authUrl\<lparr>searchParams := p7\<rparr>)"

text \<open>
  The block of the loader's \<open>try\<close>. The source holds this route twice (the second copy
  differs in its comments only); the loader is the same in both.
\<close>

definition auth_try :: "env \<Rightarrow> request \<Rightarrow> loader_result io" where
  "auth_try env req =
     await (do_fetch env (openidConfigUrl env) None) (\<lambda>openidResponse.
     if \<not> ok openidResponse
     then throw (''Failed to fetch OpenID configuration: '' @ statusText openidResponse)
     else
     await (settle (json openidResponse)) (\<lambda>openidConfig.
     let authorizationEndpoint = authorization_endpoint openidConfig;
         codeVerifier = generateCodeVerifier env;
         codeChallenge = generateCodeChallenge codeVerifier;
         state = generateState env
     in
     await (codeVerifier_create env state codeVerifier) (\<lambda>created.
     await (settle (new_URL env (request_url req))) (\<lambda>u.
     let clientId = SHOPIFY_API_KEY env in
     await (settle (new_URL env (js_string authorizationEndpoint))) (\<lambda>authUrl.
     resolve (Redirect
                (Href (build_auth_url authUrl clientId (callbackUrl u) state codeChallenge))
                []))))))"

definition auth_loader :: "env \<Rightarrow> request \<Rightarrow> world \<Rightarrow> loader_result \<times> world" where
  "auth_loader env req =
     try_catch (auth_try env req)
       (\<lambda>msg w. (Data [(''error'', JStr msg)],
                 console_error ''Error generating auth URL:'' msg w))"

section \<open>The callback route (\<open>/customer-account-api/callback\<close>)\<close>

definition token_request :: "string \<Rightarrow> string \<Rightarrow> string \<Rightarrow> string \<Rightarrow> fetch_init" where
  "token_request clientId redirectUri code verifier =
     \<lparr>http_method = ''POST'',
      headers = [(''Content-Type'', ''application/x-www-form-urlencoded'')],
      body = [(''grant_type'', ''authorization_code''),
              (''client_id'', clientId),
              (''redirect_uri'', redirectUri),
              (''code'', code),
              (''code_verifier'', verifier)]\<rparr>"

text \<open>
  \<open>tokenData.expires_in ? new Date(Date.now() + tokenData.expires_in * 1000) : null\<close>:
  an absent lifetime and the lifetime \<open>0\<close> are both falsy.
\<close>

definition token_expiration :: "env \<Rightarrow> int option \<Rightarrow> int option" where
  "token_expiration env lifetime =
     (case lifetime of
        None \<Rightarrow> None
      | Some n \<Rightarrow> if n \<noteq> 0 then Some (now env + n * 1000) else None)"

definition callback_try :: "env \<Rightarrow> request \<Rightarrow> loader_result io" where
  "callback_try env req =
     await (settle (new_URL env (request_url req))) (\<lambda>u.
     let code = searchParams_get (searchParams u) ''code'';
         state = searchParams_get (searchParams u) ''state''
     in
     if falsy code \<or> falsy state then throw ''Missing code or state parameter''
     else
     (case (code, state) of
        (Some code, Some state) \<Rightarrow>
          await (codeVerifier_findUnique state) (\<lambda>codeVerifierRecord.
          case codeVerifierRecord of
            None \<Rightarrow> throw ''Invalid state parameter or code verifier not found''
          | Some codeVerifierRecord \<Rightarrow>
          await (do_fetch env (openidConfigUrl env) None) (\<lambda>openidResponse.
          if \<not> ok openidResponse
          then throw (''Failed to fetch OpenID configuration: '' @ statusText openidResponse)
          else
          await (settle (json openidResponse)) (\<lambda>openidConfig.
          let tokenEndpoint = token_endpoint openidConfig;
              clientId = SHOPIFY_API_KEY env
          in
          await (do_fetch env (js_string tokenEndpoint)
                   (Some (token_request clientId (callbackUrl u) code
                            (cv_verifier codeVerifierRecord)))) (\<lambda>tokenResponse.
          if \<not> ok tokenResponse
          then throw (''Token exchange failed: '' @ statusText tokenResponse @ '' - ''
                        @ body_text tokenResponse)
          else
          await (settle (json tokenResponse)) (\<lambda>tokenData.
          let expiry = token_expiration env (expires_in tokenData) in
          await (customerAccessToken_create env (SHOP_STOREFRONT_DOMAIN env)
                   (access_token tokenData) expiry) (\<lambda>customerAccessToken.
          await (codeVerifier_delete env state) (\<lambda>deleted.
          let setCookieHeader = setCustomerTokenId env req (tok_id customerAccessToken)
          in resolve (Redirect (Path ''/customer-account-api/order-list'')
                        [(''Set-Cookie'', setCookieHeader)]))))))))
      | other \<Rightarrow> throw ''Missing code or state parameter''))"

definition callback_loader :: "env \<Rightarrow> request \<Rightarrow> world \<Rightarrow> loader_result \<times> world" where
  "callback_loader env req =
     try_catch (callback_try env req)
       (\<lambda>msg w. (Data [(''success'', JBool False), (''error'', JStr msg)],
                 console_error ''Error in callback:'' msg w))"

section \<open>The order-list route (\<open>/customer-account-api/order-list\<close>)\<close>

definition wellKnownUrl :: "env \<Rightarrow> string" where
  "wellKnownUrl env = ''https://'' @ SHOP_STOREFRONT_DOMAIN env @ ''/.well-known/customer-account-api''"

text \<open>
  \<open>customerAccessToken.expiresAt && new Date() > customerAccessToken.expiresAt\<close>: a
  \<open>Date\<close> is truthy, \<open>null\<close> is not, and \<open>>\<close> compares the two instants.
\<close>

definition expired :: "env \<Rightarrow> customer_access_token \<Rightarrow> bool" where
  "expired env t = (case expiresAt t of None \<Rightarrow> False | Some e \<Rightarrow> now env > e)"

definition token_payload :: "customer_access_token \<Rightarrow> string option \<Rightarrow> (string \<times> js_value) list" where
  "token_payload t graphqlApiUrl =
     [(''success'', JBool True),
      (''tokenId'', JStr (tok_id t)),
      (''accessToken'', JStr (accessToken t)),
      (''shop'', JStr (shop t)),
      (''graphqlApiUrl'', (case graphqlApiUrl of None \<Rightarrow> JUndefined | Some g \<Rightarrow> JStr g)),
      (''expiresAt'', (case expiresAt t of None \<Rightarrow> JUndefined | Some e \<Rightarrow> JIsoDate e))]"

definition order_list_try :: "env \<Rightarrow> request \<Rightarrow> loader_result io" where
  "order_list_try env req =
     (let tokenId = getCustomerTokenId env req in
      if falsy tokenId
      then throw ''No customer authentication found. Please authenticate first.''
      else
      (case tokenId of
         Some tokenId \<Rightarrow>
           await (customerAccessToken_findUnique tokenId) (\<lambda>customerAccessToken.
           case customerAccessToken of
             None \<Rightarrow> throw ''Access token not found''
           | Some customerAccessToken \<Rightarrow>
           if expired env customerAccessToken then throw ''Access token has expired''
           else
           await (do_fetch env (wellKnownUrl env) None) (\<lambda>wellKnownResponse.
           if \<not> ok wellKnownResponse
           then throw (''Failed to fetch Customer Account API configuration: ''
                         @ statusText wellKnownResponse)
           else
           await (settle (json wellKnownResponse)) (\<lambda>wellKnownConfig.
           let graphqlApiUrl = graphql_api wellKnownConfig
           in resolve (Data (token_payload customerAccessToken graphqlApiUrl)))))
       | None \<Rightarrow> throw ''No customer authentication found. Please authenticate first.''))"

definition order_list_loader :: "env \<Rightarrow> request \<Rightarrow> world \<Rightarrow> loader_result \<times> world" where
  "order_list_loader env req =
     try_catch (order_list_try env req)
       (\<lambda>msg w. (Data [(''success'', JBool False), (''error'', JStr msg)],
                 console_error ''Error loading access token:'' msg w))"

text \<open>
  The route components read properties of the loader's data (\<open>data.success\<close>,
  \<open>data.error\<close>); a property that is not there reads as \<open>undefined\<close>.
\<close>

definition property :: "loader_result \<Rightarrow> string \<Rightarrow> js_value" where
  "property r name =
     (case r of
        Redirect l hs \<Rightarrow> JUndefined
      | Data kvs \<Rightarrow> (case map_of kvs name of None \<Rightarrow> JUndefined | Some v \<Rightarrow> v))"

section \<open>An example deployment\<close>

text \<open>
  A storefront \<open>shop.example\<close> whose application runs at \<open>app.example\<close> and whose
  identity provider is \<open>idp.example\<close>. The network answers the discovery request and the
  token request with the two responses given; the URL parser is tabulated on the URLs of
  the examples; the session cookie carries the token identifier.
\<close>

definition app_url :: "string \<Rightarrow> (string \<times> string) list \<Rightarrow> url" where
  "app_url path params =
     \<lparr>protocol = ''https:'', host = ''app.example'', pathname = path, searchParams = params,
      fragment = []\<rparr>"

definition idp_url :: "string \<Rightarrow> (string \<times> string) list \<Rightarrow> url" where
  "idp_url path params =
     \<lparr>protocol = ''https:'', host = ''idp.example'', pathname = path, searchParams = params,
      fragment = []\<rparr>"

definition example_new_URL :: "string \<Rightarrow> string + url" where
  "example_new_URL s =
     (if s = ''https://app.example/customer-account-api/auth''
        then Inr (app_url ''/customer-account-api/auth'' [])
      else if s = ''https://app.example/customer-account-api/callback?code=abc&state=S''
        then Inr (app_url ''/customer-account-api/callback'' [(''code'', ''abc''), (''state'', ''S'')])
      else if s = ''https://app.example/customer-account-api/callback?state=S''
        then Inr (app_url ''/customer-account-api/callback'' [(''state'', ''S'')])
      else if s = ''https://app.example/customer-account-api/callback?code=&state=S''
        then Inr (app_url ''/customer-account-api/callback'' [(''code'', []), (''state'', ''S'')])
      else if s = ''https://idp.example/authorize''
        then Inr (idp_url ''/authorize'' [])
      else if s = ''https://idp.example/authorize?locale=en''
        then Inr (idp_url ''/authorize'' [(''locale'', ''en'')])
      else Inl ''Invalid URL'')"

definition json_response :: "json_object \<Rightarrow> http_response" where
  "json_response doc = \<lparr>ok = True, statusText = ''OK'', body_text = [], json = Inr doc\<rparr>"

definition error_response :: "string \<Rightarrow> string \<Rightarrow> http_response" where
  "error_response status txt =
     \<lparr>ok = False, statusText = status, body_text = txt, json = Inl ''Unexpected token''\<rparr>"

definition no_properties :: json_object where
  "no_properties =
     \<lparr>authorization_endpoint = None, token_endpoint = None, graphql_api = None,
      access_token = None, expires_in = None\<rparr>"

definition openid_configuration :: "string \<Rightarrow> json_object" where
  "openid_configuration authorize =
     no_properties\<lparr>authorization_endpoint := Some authorize,
                   token_endpoint := Some ''https://idp.example/token''\<rparr>"

definition customer_account_api :: json_object where
  "customer_account_api = no_properties\<lparr>graphql_api := Some ''https://shop.example/graphql''\<rparr>"

definition token_data :: "string \<Rightarrow> int option \<Rightarrow> json_object" where
  "token_data tok lifetime = no_properties\<lparr>access_token := Some tok, expires_in := lifetime\<rparr>"

definition example_fetch ::
  "http_response \<Rightarrow> http_response \<Rightarrow> string \<Rightarrow> fetch_init option \<Rightarrow> string + http_response" where
  "example_fetch discovery exchange u init =
     (if u = ''https://shop.example/.well-known/openid-configuration'' then Inr discovery
      else if u = ''https://shop.example/.well-known/customer-account-api''
        then Inr (json_response customer_account_api)
      else if u = ''https://idp.example/token'' then Inr exchange
      else Inl ''fetch failed'')"

definition example_getSession :: "string option \<Rightarrow> (string \<rightharpoonup> string)" where
  "example_getSession c = (case c of None \<Rightarrow> Map.empty | Some t \<Rightarrow> [''customerTokenId'' \<mapsto> t])"

definition example_commitSession :: "(string \<rightharpoonup> string) \<Rightarrow> string" where
  "example_commitSession session =
     (case session ''customerTokenId'' of None \<Rightarrow> [] | Some t \<Rightarrow> ''__customer_session='' @ t)"

definition example_message :: "prisma_error \<Rightarrow> string" where
  "example_message e =
     (case e of UniqueConstraintFailed \<Rightarrow> ''Unique constraint failed''
      | RecordNotFound \<Rightarrow> ''Record to delete does not exist''
      | MissingArgument \<Rightarrow> ''Argument is missing'')"

definition example_env :: "http_response \<Rightarrow> http_response \<Rightarrow> env" where
  "example_env discovery exchange =
     \<lparr>SHOP_STOREFRONT_DOMAIN = ''shop.example'',
      SHOPIFY_API_KEY = ''client-1'',
      now = 1700000000000,
      randomBytes = (\<lambda>n. replicate n 0),
      fetch = example_fetch discovery exchange,
      new_URL = example_new_URL,
      getSession = example_getSession,
      commitSession = example_commitSession,
      generated_id = ''row-1'',
      prisma_message = example_message\<rparr>"

definition example_request :: "string \<Rightarrow> string option \<Rightarrow> request" where
  "example_request u c = \<lparr>request_url = u, Cookie = c\<rparr>"

definition empty_world :: world where
  "empty_world = \<lparr>codeVerifiers = [], customerAccessTokens = [], effects = []\<rparr>"

definition pending_world :: world where
  "pending_world =
     \<lparr>codeVerifiers = [\<lparr>cv_id = ''row-0'', cv_state = ''S'', cv_verifier = ''V''\<rparr>],
      customerAccessTokens = [], effects = []\<rparr>"

definition token_world :: "int option \<Rightarrow> world" where
  "token_world expiry =
     \<lparr>codeVerifiers = [],
      customerAccessTokens =
        [\<lparr>tok_id = ''row-1'', shop = ''shop.example'', accessToken = ''tok1'', expiresAt = expiry\<rparr>],
      effects = []\<rparr>"

text \<open>The responses and requests of the scenarios below.\<close>

definition discovery_ok :: http_response where
  "discovery_ok = json_response (openid_configuration ''https://idp.example/authorize'')"

definition discovery_with_query :: http_response where
  "discovery_with_query =
     json_response (openid_configuration ''https://idp.example/authorize?locale=en'')"

definition discovery_down :: http_response where
  "discovery_down = error_response ''Internal Server Error'' []"

definition exchange_ok :: "int option \<Rightarrow> http_response" where
  "exchange_ok lifetime = json_response (token_data ''tok1'' lifetime)"

definition exchange_rejected :: http_response where
  "exchange_rejected = error_response ''Bad Request'' ''invalid_grant''"

definition auth_request :: request where
  "auth_request = example_request ''https://app.example/customer-account-api/auth'' None"

definition callback_request :: "string \<Rightarrow> request" where
  "callback_request query =
     example_request (''https://app.example/customer-account-api/callback'' @ query) None"

definition order_list_request :: "string option \<Rightarrow> request" where
  "order_list_request c =
     example_request ''https://app.example/customer-account-api/order-list'' c"

section \<open>Auxiliary facts\<close>

lemmas io_defs = resolve_def throw_def settle_def await_def try_catch_def perform_def
  console_error_def do_fetch_def

lemmas prisma_defs = codeVerifier_create_def codeVerifier_findUnique_def codeVerifier_delete_def
  customerAccessToken_create_def customerAccessToken_findUnique_def

lemmas loader_defs = auth_loader_def auth_try_def callback_loader_def callback_try_def
  order_list_loader_def order_list_try_def openidConfigUrl_def wellKnownUrl_def callbackUrl_def
  token_request_def token_expiration_def expired_def token_payload_def js_string_def falsy_def
  searchParams_get_def getCustomerTokenId_def setCustomerTokenId_def build_auth_url_def

lemmas example_defs = example_env_def example_fetch_def example_new_URL_def example_request_def
  app_url_def idp_url_def json_response_def error_response_def no_properties_def
  openid_configuration_def customer_account_api_def token_data_def example_getSession_def
  example_commitSession_def example_message_def empty_world_def pending_world_def token_world_def
  discovery_ok_def discovery_with_query_def discovery_down_def exchange_ok_def
  exchange_rejected_def auth_request_def callback_request_def order_list_request_def

text \<open>\<open>set\<close> leaves one pair of the name, and does not touch the pairs of other names.\<close>

lemma getAll_set_same: "searchParams_getAll (searchParams_set k v ps) k = [v]"
  by (induction ps) (auto simp add: searchParams_getAll_def filter_empty_conv)

lemma getAll_set_other:
  "k' \<noteq> k \<Longrightarrow> searchParams_getAll (searchParams_set k v ps) k' = searchParams_getAll ps k'"
  by (induction ps) (auto simp add: searchParams_getAll_def intro: filter_cong arg_cong)

lemma filter_set_others:
  "k \<in> K \<Longrightarrow> filter (\<lambda>p. fst p \<notin> K) (searchParams_set k v ps) = filter (\<lambda>p. fst p \<notin> K) ps"
  by (induction ps) (auto intro: filter_cong)

lemma build_auth_url_others:
  assumes "{''client_id'', ''response_type'', ''redirect_uri'', ''scope'', ''state'',
            ''code_challenge'', ''code_challenge_method''} \<subseteq> K"
  shows "filter (\<lambda>p. fst p \<notin> K) (searchParams (build_auth_url e c cb st ch))
         = filter (\<lambda>p. fst p \<notin> K) (searchParams e)"
  using assms by (simp add: build_auth_url_def Let_def filter_set_others)

section \<open>The PKCE challenge\<close>

text \<open>
  The test vector of RFC 7636, appendix B: the model of SHA-256 and of the
  \<open>base64url\<close> encoding computes the challenge the RFC gives for its verifier.
\<close>

lemma generateCodeChallenge_rfc7636:
  "generateCodeChallenge ''dBjftJeZ4CVP-mB92K27uhbUJU1p1r_wW1gFWFOEjXk''
   = ''E9Melhoa2OwvFrEMTJguCHaoeK1t8URWbuGJSstw-cM''"
  by code_simp

text \<open>
  The digest has thirty-two bytes, and its encoding is a string of forty-three characters
  of the URL-safe alphabet, without padding.
\<close>

lemma eight_elements:
  assumes "length vs = 8"
  obtains a b c d e f g h where "vs = [a, b, c, d, e, f, g, h]"
  using assms by (auto simp add: numeral_eq_Suc length_Suc_conv)

lemma length_sha256_round: "length vs = 8 \<Longrightarrow> length (sha256_round kw vs) = 8"
  by (erule eight_elements, cases kw) (simp add: Let_def)

lemma length_fold_sha256_round:
  "length vs = 8 \<Longrightarrow> length (fold sha256_round kws vs) = 8"
  by (induction kws arbitrary: vs) (simp_all add: length_sha256_round)

lemma length_compress: "length hs = 8 \<Longrightarrow> length (compress hs block) = 8"
  by (simp add: compress_def length_fold_sha256_round)

lemma length_sha256_blocks: "length hs = 8 \<Longrightarrow> length (sha256_blocks hs bs) = 8"
proof (induction hs bs rule: sha256_blocks.induct)
  case (1 hs bs)
  show ?case
  proof (cases "length bs < 64")
    case True
    then have "sha256_blocks hs bs = hs"
      by (subst sha256_blocks.simps) simp
    with "1.prems" show ?thesis by simp
  next
    case False
    then have "sha256_blocks hs bs
               = sha256_blocks (compress hs (be32 (take 64 bs))) (drop 64 bs)"
      by (subst sha256_blocks.simps) simp
    with "1.IH" [OF False] "1.prems" show ?thesis
      by (simp add: length_compress)
  qed
qed

lemma length_concat_bytes32: "length (concat (map bytes32 ws)) = 4 * length ws"
  by (induction ws) (simp_all add: bytes32_def)

lemma length_sha256: "length (sha256 msg) = 32"
  by (simp add: sha256_def length_concat_bytes32 length_sha256_blocks sha256_H0_def)

lemma length_base64url: "length (base64url bs) = (4 * length bs + 2) div 3"
  by (induction bs rule: base64url.induct) simp_all

lemma generateCodeChallenge_length: "length (generateCodeChallenge v) = 43"
  by (simp add: generateCodeChallenge_def digest_def update_def createHash_def toString_def
        length_base64url length_sha256)

lemma b64_in_alphabet: "b64 i \<in> set base64url_alphabet"
proof -
  have "i AND 63 \<le> 63" by (rule word_and_le1)
  then have "unat (i AND 63) \<le> 63" by (simp add: word_le_nat_alt)
  then have "unat (i AND 63) < length base64url_alphabet"
    by (simp add: base64url_alphabet_def)
  then show ?thesis
    unfolding b64_def by (rule nth_mem)
qed

lemma base64url_url_safe: "set (base64url bs) \<subseteq> set base64url_alphabet"
  by (induction bs rule: base64url.induct) (simp_all add: b64_in_alphabet)

lemma generateCodeChallenge_url_safe:
  "set (generateCodeChallenge v) \<subseteq> set base64url_alphabet"
  by (simp add: generateCodeChallenge_def digest_def toString_def base64url_url_safe)


section \<open>The initiation route\<close>

text \<open>
  Claim C7. When the discovery fetch of an initiation request returns a non-success HTTP
  status, the loader returns an error whose message embeds the provider's status text; it
  issues no redirect and stores no CodeVerifier record: the only effects are the fetch and
  the log entry, so the store write is never reached and the two tables are unchanged.
\<close>

theorem auth_discovery_failure:
  assumes "fetch env (openidConfigUrl env) None = Inr response"
      and "\<not> ok response"
  shows "auth_loader env req w =
           (Data [(''error'', JStr (''Failed to fetch OpenID configuration: '' @ statusText response))],
            w\<lparr>effects := effects w @
                 [Fetch (openidConfigUrl env) None,
                  Console_error ''Error generating auth URL:''
                    (''Failed to fetch OpenID configuration: '' @ statusText response)]\<rparr>)"
  using assms by (simp add: auth_loader_def auth_try_def io_defs)

theorem auth_discovery_failure_witness:
  "auth_loader (example_env discovery_down exchange_rejected) auth_request empty_world =
     (Data [(''error'', JStr ''Failed to fetch OpenID configuration: Internal Server Error'')],
      empty_world\<lparr>effects :=
        [Fetch ''https://shop.example/.well-known/openid-configuration'' None,
         Console_error ''Error generating auth URL:''
           ''Failed to fetch OpenID configuration: Internal Server Error'']\<rparr>)"
proof -
  let ?env = "example_env discovery_down exchange_rejected"
  have h1: "fetch ?env (openidConfigUrl ?env) None = Inr discovery_down"
    by (simp add: example_env_def example_fetch_def openidConfigUrl_def)
  have h2: "\<not> ok discovery_down"
    by (simp add: discovery_down_def error_response_def)
  show ?thesis
    using auth_discovery_failure [OF h1 h2, of auth_request empty_world]
    by (simp add: openidConfigUrl_def example_env_def discovery_down_def error_response_def
          empty_world_def)
qed

text \<open>
  Claim C6, as the code has it. A successful initiation stores the verifier under the
  freshly generated state and redirects to the discovered \<open>authorization_endpoint\<close> with
  its search parameters changed by seven \<open>set\<close> calls. In the issued URL each of
  \<open>client_id\<close> (the configured client id), \<open>response_type=code\<close>,
  \<open>redirect_uri=https://{host of the request}/customer-account-api/callback\<close>,
  \<open>scope=openid email customer-account-api:full\<close>, \<open>state\<close> (the stored state),
  \<open>code_challenge\<close> (the challenge of the stored verifier) and
  \<open>code_challenge_method=S256\<close> occurs exactly once, with that value; every other
  parameter of the discovered endpoint is kept; the rest of the URL is the endpoint's. When
  the endpoint has no search parameters of its own, the issued URL carries exactly the seven.
\<close>

theorem auth_redirect_parameters:
  assumes "fetch env (openidConfigUrl env) None = Inr discovery"
      and "ok discovery"
      and "json discovery = Inr config"
      and "find (\<lambda>x. cv_id x = generated_id env \<or> cv_state x = generateState env)
             (codeVerifiers w) = None"
      and "new_URL env (request_url req) = Inr u"
      and "new_URL env (js_string (authorization_endpoint config)) = Inr endpoint"
  shows "(let issued = build_auth_url endpoint (SHOPIFY_API_KEY env) (callbackUrl u)
                         (generateState env) (generateCodeChallenge (generateCodeVerifier env));
              claimed = [(''client_id'', SHOPIFY_API_KEY env),
                         (''response_type'', ''code''),
                         (''redirect_uri'', ''https://'' @ host u @ ''/customer-account-api/callback''),
                         (''scope'', ''openid email customer-account-api:full''),
                         (''state'', generateState env),
                         (''code_challenge'', generateCodeChallenge (generateCodeVerifier env)),
                         (''code_challenge_method'', ''S256'')]
          in auth_loader env req w =
               (Redirect (Href issued) [],
                w\<lparr>codeVerifiers := codeVerifiers w @
                     [\<lparr>cv_id = generated_id env, cv_state = generateState env,
                       cv_verifier = generateCodeVerifier env\<rparr>],
                   effects := effects w @
                     [Fetch (openidConfigUrl env) None,
                      CodeVerifier_create (generateState env) (generateCodeVerifier env)]\<rparr>)
           \<and> issued\<lparr>searchParams := []\<rparr> = endpoint\<lparr>searchParams := []\<rparr>
           \<and> (\<forall>p \<in> set claimed. searchParams_getAll (searchParams issued) (fst p) = [snd p])
           \<and> filter (\<lambda>p. fst p \<notin> fst ` set claimed) (searchParams issued)
               = filter (\<lambda>p. fst p \<notin> fst ` set claimed) (searchParams endpoint)
           \<and> (searchParams endpoint = [] \<longrightarrow> searchParams issued = claimed))"
proof -
  have run: "auth_loader env req w =
               (Redirect (Href (build_auth_url endpoint (SHOPIFY_API_KEY env) (callbackUrl u)
                         (generateState env) (generateCodeChallenge (generateCodeVerifier env)))) [],
                w\<lparr>codeVerifiers := codeVerifiers w @
                     [\<lparr>cv_id = generated_id env, cv_state = generateState env,
                       cv_verifier = generateCodeVerifier env\<rparr>],
                   effects := effects w @
                     [Fetch (openidConfigUrl env) None,
                      CodeVerifier_create (generateState env) (generateCodeVerifier env)]\<rparr>)"
    using assms by (simp add: auth_loader_def auth_try_def codeVerifier_create_def io_defs Let_def)
  show ?thesis
    unfolding Let_def
    apply (intro conjI)
        apply (rule run)
       apply (simp add: build_auth_url_def)
      apply (simp add: build_auth_url_def getAll_set_same getAll_set_other callbackUrl_def)
     apply (rule build_auth_url_others)
     apply simp
    apply (simp add: build_auth_url_def callbackUrl_def)
    done
qed

theorem auth_redirect_parameters_witness:
  "auth_loader (example_env discovery_ok (exchange_ok (Some 3600))) auth_request empty_world =
     (Redirect
        (Href (idp_url ''/authorize''
           [(''client_id'', ''client-1''),
            (''response_type'', ''code''),
            (''redirect_uri'', ''https://app.example/customer-account-api/callback''),
            (''scope'', ''openid email customer-account-api:full''),
            (''state'', generateState (example_env discovery_ok (exchange_ok (Some 3600)))),
            (''code_challenge'',
             generateCodeChallenge
               (generateCodeVerifier (example_env discovery_ok (exchange_ok (Some 3600))))),
            (''code_challenge_method'', ''S256'')]))
        [],
      empty_world\<lparr>codeVerifiers :=
          [\<lparr>cv_id = ''row-1'',
            cv_state = generateState (example_env discovery_ok (exchange_ok (Some 3600))),
            cv_verifier = generateCodeVerifier (example_env discovery_ok (exchange_ok (Some 3600)))\<rparr>],
        effects :=
          [Fetch ''https://shop.example/.well-known/openid-configuration'' None,
           CodeVerifier_create
             (generateState (example_env discovery_ok (exchange_ok (Some 3600))))
             (generateCodeVerifier (example_env discovery_ok (exchange_ok (Some 3600))))]\<rparr>)"
proof -
  let ?env = "example_env discovery_ok (exchange_ok (Some 3600))"
  let ?config = "openid_configuration ''https://idp.example/authorize''"
  have h1: "fetch ?env (openidConfigUrl ?env) None = Inr discovery_ok"
    by (simp add: example_env_def example_fetch_def openidConfigUrl_def)
  have h2: "ok discovery_ok"
    by (simp add: discovery_ok_def json_response_def)
  have h3: "json discovery_ok = Inr ?config"
    by (simp add: discovery_ok_def json_response_def)
  have h4: "find (\<lambda>x. cv_id x = generated_id ?env \<or> cv_state x = generateState ?env)
              (codeVerifiers empty_world) = None"
    by (simp add: empty_world_def)
  have h5: "new_URL ?env (request_url auth_request)
            = Inr (app_url ''/customer-account-api/auth'' [])"
    by (simp add: example_env_def example_new_URL_def auth_request_def example_request_def)
  have h6: "new_URL ?env (js_string (authorization_endpoint ?config))
            = Inr (idp_url ''/authorize'' [])"
    by (simp add: example_env_def example_new_URL_def openid_configuration_def
          no_properties_def js_string_def)
  have env_facts: "SHOPIFY_API_KEY ?env = ''client-1''" "generated_id ?env = ''row-1''"
    "openidConfigUrl ?env = ''https://shop.example/.well-known/openid-configuration''"
    by (simp_all add: example_env_def openidConfigUrl_def)
  show ?thesis
    using auth_redirect_parameters [OF h1 h2 h3 h4 h5 h6]
    by (simp add: Let_def build_auth_url_def callbackUrl_def env_facts app_url_def idp_url_def
          empty_world_def)
qed

theorem auth_redirect_keeps_endpoint_query:
  "fst (auth_loader (example_env discovery_with_query (exchange_ok (Some 3600))) auth_request
          empty_world)
   = Redirect
       (Href (idp_url ''/authorize''
          [(''locale'', ''en''),
           (''client_id'', ''client-1''),
           (''response_type'', ''code''),
           (''redirect_uri'', ''https://app.example/customer-account-api/callback''),
           (''scope'', ''openid email customer-account-api:full''),
           (''state'', generateState (example_env discovery_with_query (exchange_ok (Some 3600)))),
           (''code_challenge'',
            generateCodeChallenge
              (generateCodeVerifier (example_env discovery_with_query (exchange_ok (Some 3600))))),
           (''code_challenge_method'', ''S256'')]))
       []
   \<and> fst (auth_loader (example_env discovery_with_query (exchange_ok (Some 3600))) auth_request
          empty_world)
   \<noteq> Redirect
       (Href (idp_url ''/authorize''
          [(''client_id'', ''client-1''),
           (''response_type'', ''code''),
           (''redirect_uri'', ''https://app.example/customer-account-api/callback''),
           (''scope'', ''openid email customer-account-api:full''),
           (''state'', generateState (example_env discovery_with_query (exchange_ok (Some 3600)))),
           (''code_challenge'',
            generateCodeChallenge
              (generateCodeVerifier (example_env discovery_with_query (exchange_ok (Some 3600))))),
           (''code_challenge_method'', ''S256'')]))
       []"
  by (simp add: loader_defs prisma_defs io_defs example_defs Let_def)

section \<open>The callback route\<close>

text \<open>
  Claim C8. A callback request that misses the \<open>code\<close> parameter or the \<open>state\<close>
  parameter (or both) returns \<open>{success: false, error: "Missing code or state parameter"}\<close>
  and performs no database read or write: its only effect is the log entry, and the two
  tables are unchanged. (The guard is \<open>!code || !state\<close>, so a parameter with the empty
  value counts as missing as well.)
\<close>

theorem callback_missing_parameter:
  assumes "new_URL env (request_url req) = Inr u"
      and "falsy (searchParams_get (searchParams u) ''code'')
           \<or> falsy (searchParams_get (searchParams u) ''state'')"
  shows "callback_loader env req w =
           (Data [(''success'', JBool False), (''error'', JStr ''Missing code or state parameter'')],
            w\<lparr>effects := effects w @
                 [Console_error ''Error in callback:'' ''Missing code or state parameter'']\<rparr>)"
  using assms by (auto simp add: callback_loader_def callback_try_def io_defs)

theorem callback_missing_parameter_witness:
  "searchParams_get [(''state'', ''S'')] ''code'' = None
   \<and> callback_loader (example_env discovery_ok (exchange_ok (Some 3600)))
        (callback_request ''?state=S'') pending_world =
       (Data [(''success'', JBool False), (''error'', JStr ''Missing code or state parameter'')],
        pending_world\<lparr>effects :=
          [Console_error ''Error in callback:'' ''Missing code or state parameter'']\<rparr>)"
proof -
  let ?env = "example_env discovery_ok (exchange_ok (Some 3600))"
  have h1: "new_URL ?env (request_url (callback_request ''?state=S''))
            = Inr (app_url ''/customer-account-api/callback'' [(''state'', ''S'')])"
    by (simp add: example_env_def example_new_URL_def callback_request_def example_request_def)
  have h2: "falsy (searchParams_get
                     (searchParams (app_url ''/customer-account-api/callback'' [(''state'', ''S'')]))
                     ''code'')
            \<or> falsy (searchParams_get
                     (searchParams (app_url ''/customer-account-api/callback'' [(''state'', ''S'')]))
                     ''state'')"
    by (simp add: app_url_def searchParams_get_def falsy_def)
  show ?thesis
    using callback_missing_parameter [OF h1 h2, of pending_world]
    by (simp add: searchParams_get_def pending_world_def)
qed

text \<open>
  Claim C2, as the code has it. A callback request that carries non-empty \<open>code\<close> and
  \<open>state\<close> parameters, where no CodeVerifier record exists for that state, fails with
  "Invalid state parameter or code verifier not found" and creates no CustomerAccessToken
  record: after the lookup the only effect is the log entry, so the token exchange and the
  token persist steps are never reached and the two tables are unchanged.
\<close>

theorem callback_unknown_state_rejected:
  assumes "new_URL env (request_url req) = Inr u"
      and "searchParams_get (searchParams u) ''code'' = Some code"
      and "searchParams_get (searchParams u) ''state'' = Some state"
      and "code \<noteq> []"
      and "state \<noteq> []"
      and "find (\<lambda>x. cv_state x = state) (codeVerifiers w) = None"
  shows "callback_loader env req w =
           (Data [(''success'', JBool False),
                  (''error'', JStr ''Invalid state parameter or code verifier not found'')],
            w\<lparr>effects := effects w @
                 [CodeVerifier_findUnique state,
                  Console_error ''Error in callback:''
                    ''Invalid state parameter or code verifier not found'']\<rparr>)"
  using assms
  by (simp add: callback_loader_def callback_try_def falsy_def codeVerifier_findUnique_def io_defs)

theorem callback_unknown_state_rejected_witness:
  "callback_loader (example_env discovery_ok (exchange_ok (Some 3600)))
     (callback_request ''?code=abc&state=S'') empty_world =
   (Data [(''success'', JBool False),
          (''error'', JStr ''Invalid state parameter or code verifier not found'')],
    empty_world\<lparr>effects :=
      [CodeVerifier_findUnique ''S'',
       Console_error ''Error in callback:''
         ''Invalid state parameter or code verifier not found'']\<rparr>)"
proof -
  let ?env = "example_env discovery_ok (exchange_ok (Some 3600))"
  let ?u = "app_url ''/customer-account-api/callback'' [(''code'', ''abc''), (''state'', ''S'')]"
  have h1: "new_URL ?env (request_url (callback_request ''?code=abc&state=S'')) = Inr ?u"
    by (simp add: example_env_def example_new_URL_def callback_request_def example_request_def)
  have h2: "searchParams_get (searchParams ?u) ''code'' = Some ''abc''"
    by (simp add: app_url_def searchParams_get_def)
  have h3: "searchParams_get (searchParams ?u) ''state'' = Some ''S''"
    by (simp add: app_url_def searchParams_get_def)
  have h4: "''abc'' \<noteq> []" by simp
  have h5: "''S'' \<noteq> []" by simp
  have h6: "find (\<lambda>x. cv_state x = ''S'') (codeVerifiers empty_world) = None"
    by (simp add: empty_world_def)
  show ?thesis
    using callback_unknown_state_rejected [OF h1 h2 h3 h4 h5 h6]
    by (simp add: empty_world_def)
qed

text \<open>
  The claim as the specification states it fails on a request that carries an empty
  \<open>code\<close>: no record exists for the state \<open>S\<close>, and the error is the one of a missing
  parameter.
\<close>

theorem callback_empty_code_is_missing_parameter:
  "new_URL (example_env discovery_ok (exchange_ok (Some 3600)))
     (request_url (callback_request ''?code=&state=S''))
   = Inr (app_url ''/customer-account-api/callback'' [(''code'', []), (''state'', ''S'')])
   \<and> codeVerifiers empty_world = []
   \<and> callback_loader (example_env discovery_ok (exchange_ok (Some 3600)))
        (callback_request ''?code=&state=S'') empty_world =
       (Data [(''success'', JBool False), (''error'', JStr ''Missing code or state parameter'')],
        empty_world\<lparr>effects :=
          [Console_error ''Error in callback:'' ''Missing code or state parameter'']\<rparr>)"
  by (simp add: loader_defs prisma_defs io_defs example_defs Let_def)




text \<open>
  The expiry of a token: no expiry for an absent lifetime and for the lifetime \<open>0\<close>,
  the current time plus the lifetime for every other one.
\<close>

lemma token_expiration_cases:
  "token_expiration env None = None"
  "token_expiration env (Some 0) = None"
  "n \<noteq> 0 \<Longrightarrow> token_expiration env (Some n) = Some (now env + n * 1000)"
  by (simp_all add: token_expiration_def)

text \<open>
  Claim C5 on the token response \<open>{access_token: "tok1", expires_in: 0}\<close>: the response
  contains a lifetime, and the CustomerAccessToken record is stored with no expiry
  (\<open>expiresAt\<close> is \<open>null\<close>), not with the current time plus zero seconds.
\<close>

theorem callback_zero_lifetime_stores_no_expiry:
  "expires_in (token_data ''tok1'' (Some 0)) = Some 0
   \<and> customerAccessTokens
       (snd (callback_loader (example_env discovery_ok (exchange_ok (Some 0)))
               (callback_request ''?code=abc&state=S'') pending_world))
     = [\<lparr>tok_id = ''row-1'', shop = ''shop.example'', accessToken = ''tok1'', expiresAt = None\<rparr>]"
  by (simp add: loader_defs prisma_defs io_defs example_defs Let_def)

section \<open>The order-list route\<close>

text \<open>
  Claim C4. When the session names a stored AccessToken whose \<open>expiresAt\<close> is strictly
  before the current time, the order-list loader rejects it with the error "Access token has
  expired" and does not return the token; the record stays in the store (the loader
  performs the lookup and the log entry only, and the two tables are unchanged).
\<close>

theorem order_list_rejects_expired_token:
  assumes "getCustomerTokenId env req = Some tokenId"
      and "tokenId \<noteq> []"
      and "find (\<lambda>x. tok_id x = tokenId) (customerAccessTokens w) = Some t"
      and "expiresAt t = Some e"
      and "e < now env"
  shows "order_list_loader env req w =
           (Data [(''success'', JBool False), (''error'', JStr ''Access token has expired'')],
            w\<lparr>effects := effects w @
                 [CustomerAccessToken_findUnique tokenId,
                  Console_error ''Error loading access token:'' ''Access token has expired'']\<rparr>)"
  using assms
  by (simp add: order_list_loader_def order_list_try_def customerAccessToken_findUnique_def
        expired_def falsy_def io_defs)

theorem order_list_rejects_expired_token_witness:
  "order_list_loader (example_env discovery_ok (exchange_ok None))
     (order_list_request (Some ''row-1'')) (token_world (Some 1699999999999)) =
   (Data [(''success'', JBool False), (''error'', JStr ''Access token has expired'')],
    \<lparr>codeVerifiers = [],
     customerAccessTokens =
       [\<lparr>tok_id = ''row-1'', shop = ''shop.example'', accessToken = ''tok1'',
         expiresAt = Some 1699999999999\<rparr>],
     effects =
       [CustomerAccessToken_findUnique ''row-1'',
        Console_error ''Error loading access token:'' ''Access token has expired'']\<rparr>)"
proof -
  let ?env = "example_env discovery_ok (exchange_ok None)"
  let ?t = "\<lparr>tok_id = ''row-1'', shop = ''shop.example'', accessToken = ''tok1'',
             expiresAt = Some 1699999999999\<rparr>"
  have h1: "getCustomerTokenId ?env (order_list_request (Some ''row-1'')) = Some ''row-1''"
    by (simp add: getCustomerTokenId_def example_env_def example_getSession_def
          order_list_request_def example_request_def)
  have h2: "''row-1'' \<noteq> []" by simp
  have h3: "find (\<lambda>x. tok_id x = ''row-1'')
              (customerAccessTokens (token_world (Some 1699999999999))) = Some ?t"
    by (simp add: token_world_def)
  have h4: "expiresAt ?t = Some 1699999999999" by simp
  have h5: "1699999999999 < now ?env"
    by (simp add: example_env_def)
  show ?thesis
    using order_list_rejects_expired_token [OF h1 h2 h3 h4 h5]
    by (simp add: token_world_def)
qed

text \<open>
  Claim C10. The expiry check of the order-list loader is a strict comparison. For a stored
  token found for the session, the loader rejects the token as expired (the expired-token
  error, with no request sent to the provider) exactly when \<open>expiresAt\<close> is set and the
  current time is strictly greater. A token whose \<open>expiresAt\<close> is \<open>null\<close>, or is not
  before the current instant (equal to it included), is accepted: the loader goes on to the
  discovery of the API endpoint and, when that succeeds, returns the token in its data.
\<close>

theorem order_list_expiry_is_strict:
  assumes "getCustomerTokenId env req = Some tokenId"
      and "tokenId \<noteq> []"
      and "find (\<lambda>x. tok_id x = tokenId) (customerAccessTokens w) = Some t"
  shows "(order_list_loader env req w =
            (Data [(''success'', JBool False), (''error'', JStr ''Access token has expired'')],
             w\<lparr>effects := effects w @
                  [CustomerAccessToken_findUnique tokenId,
                   Console_error ''Error loading access token:'' ''Access token has expired'']\<rparr>))
         = (\<exists>e. expiresAt t = Some e \<and> e < now env)
       \<and> (\<not> (\<exists>e. expiresAt t = Some e \<and> e < now env) \<longrightarrow>
            fetch env (wellKnownUrl env) None = Inr response \<longrightarrow> ok response \<longrightarrow>
            json response = Inr config \<longrightarrow>
            order_list_loader env req w =
              (Data (token_payload t (graphql_api config)),
               w\<lparr>effects := effects w @
                    [CustomerAccessToken_findUnique tokenId, Fetch (wellKnownUrl env) None]\<rparr>))"
proof (cases "\<exists>e. expiresAt t = Some e \<and> e < now env")
  case True
  then have "expired env t"
    by (auto simp add: expired_def)
  with assms True show ?thesis
    by (simp add: order_list_loader_def order_list_try_def customerAccessToken_findUnique_def
          falsy_def io_defs)
next
  case False
  then have fresh: "\<not> expired env t"
    by (auto simp add: expired_def split: option.splits)
  have fetched:
    "\<exists>r es. order_list_loader env req w =
       (r, w\<lparr>effects := effects w @
               [CustomerAccessToken_findUnique tokenId, Fetch (wellKnownUrl env) None] @ es\<rparr>)"
    using assms fresh
    by (cases "fetch env (wellKnownUrl env) None")
       (auto simp add: order_list_loader_def order_list_try_def
          customerAccessToken_findUnique_def falsy_def io_defs split: sum.splits)
  have not_rejected:
    "order_list_loader env req w \<noteq>
       (Data [(''success'', JBool False), (''error'', JStr ''Access token has expired'')],
        w\<lparr>effects := effects w @
             [CustomerAccessToken_findUnique tokenId,
              Console_error ''Error loading access token:'' ''Access token has expired'']\<rparr>)"
  proof
    assume rejected: "order_list_loader env req w =
       (Data [(''success'', JBool False), (''error'', JStr ''Access token has expired'')],
        w\<lparr>effects := effects w @
             [CustomerAccessToken_findUnique tokenId,
              Console_error ''Error loading access token:'' ''Access token has expired'']\<rparr>)"
    from fetched obtain r es where
      "order_list_loader env req w =
         (r, w\<lparr>effects := effects w @
                 [CustomerAccessToken_findUnique tokenId, Fetch (wellKnownUrl env) None] @ es\<rparr>)"
      by blast
    with rejected have
      "effects (w\<lparr>effects := effects w @
             [CustomerAccessToken_findUnique tokenId,
              Console_error ''Error loading access token:'' ''Access token has expired'']\<rparr>)
       = effects (w\<lparr>effects := effects w @
                 [CustomerAccessToken_findUnique tokenId, Fetch (wellKnownUrl env) None] @ es\<rparr>)"
      by simp
    then show False by simp
  qed
  have accepted:
    "fetch env (wellKnownUrl env) None = Inr response \<longrightarrow> ok response \<longrightarrow>
     json response = Inr config \<longrightarrow>
     order_list_loader env req w =
       (Data (token_payload t (graphql_api config)),
        w\<lparr>effects := effects w @
             [CustomerAccessToken_findUnique tokenId, Fetch (wellKnownUrl env) None]\<rparr>)"
    using assms fresh
    by (simp add: order_list_loader_def order_list_try_def customerAccessToken_findUnique_def
          falsy_def io_defs)
  from False not_rejected accepted show ?thesis
    by simp
qed

theorem order_list_expiry_is_strict_witness:
  "now (example_env discovery_ok (exchange_ok None)) = 1700000000000
   \<and> order_list_loader (example_env discovery_ok (exchange_ok None))
        (order_list_request (Some ''row-1'')) (token_world (Some 1700000000000)) =
      (Data [(''success'', JBool True),
             (''tokenId'', JStr ''row-1''),
             (''accessToken'', JStr ''tok1''),
             (''shop'', JStr ''shop.example''),
             (''graphqlApiUrl'', JStr ''https://shop.example/graphql''),
             (''expiresAt'', JIsoDate 1700000000000)],
       \<lparr>codeVerifiers = [],
        customerAccessTokens =
          [\<lparr>tok_id = ''row-1'', shop = ''shop.example'', accessToken = ''tok1'',
            expiresAt = Some 1700000000000\<rparr>],
        effects =
          [CustomerAccessToken_findUnique ''row-1'',
           Fetch ''https://shop.example/.well-known/customer-account-api'' None]\<rparr>)
   \<and> order_list_loader (example_env discovery_ok (exchange_ok None))
        (order_list_request (Some ''row-1'')) (token_world None) =
      (Data [(''success'', JBool True),
             (''tokenId'', JStr ''row-1''),
             (''accessToken'', JStr ''tok1''),
             (''shop'', JStr ''shop.example''),
             (''graphqlApiUrl'', JStr ''https://shop.example/graphql''),
             (''expiresAt'', JUndefined)],
       \<lparr>codeVerifiers = [],
        customerAccessTokens =
          [\<lparr>tok_id = ''row-1'', shop = ''shop.example'', accessToken = ''tok1'',
            expiresAt = None\<rparr>],
        effects =
          [CustomerAccessToken_findUnique ''row-1'',
           Fetch ''https://shop.example/.well-known/customer-account-api'' None]\<rparr>)
   \<and> order_list_loader (example_env discovery_ok (exchange_ok None))
        (order_list_request (Some ''row-1'')) (token_world (Some 1699999999999)) =
      (Data [(''success'', JBool False), (''error'', JStr ''Access token has expired'')],
       \<lparr>codeVerifiers = [],
        customerAccessTokens =
          [\<lparr>tok_id = ''row-1'', shop = ''shop.example'', accessToken = ''tok1'',
            expiresAt = Some 1699999999999\<rparr>],
        effects =
          [CustomerAccessToken_findUnique ''row-1'',
           Console_error ''Error loading access token:'' ''Access token has expired'']\<rparr>)"
proof -
  let ?env = "example_env discovery_ok (exchange_ok None)"
  let ?req = "order_list_request (Some ''row-1'')"
  have h1: "getCustomerTokenId ?env ?req = Some ''row-1''"
    by (simp add: getCustomerTokenId_def example_env_def example_getSession_def
          order_list_request_def example_request_def)
  have h2: "''row-1'' \<noteq> []" by simp
  have h3: "find (\<lambda>x. tok_id x = ''row-1'') (customerAccessTokens (token_world expiry))
            = Some \<lparr>tok_id = ''row-1'', shop = ''shop.example'', accessToken = ''tok1'',
                    expiresAt = expiry\<rparr>" for expiry
    by (simp add: token_world_def)
  have h4: "fetch ?env (wellKnownUrl ?env) None = Inr (json_response customer_account_api)"
    by (simp add: example_env_def example_fetch_def wellKnownUrl_def)
  have h5: "ok (json_response customer_account_api)"
    by (simp add: json_response_def)
  have h6: "json (json_response customer_account_api) = Inr customer_account_api"
    by (simp add: json_response_def)
  have clock: "now ?env = 1700000000000"
    by (simp add: example_env_def)
  show ?thesis
    using order_list_expiry_is_strict
            [OF h1 h2 h3, of "Some 1700000000000" "json_response customer_account_api"
               customer_account_api]
          order_list_expiry_is_strict
            [OF h1 h2 h3, of None "json_response customer_account_api" customer_account_api]
          order_list_expiry_is_strict
            [OF h1 h2 h3, of "Some 1699999999999" "json_response customer_account_api"
               customer_account_api]
          h4 h5 h6 clock
    by (simp add: wellKnownUrl_def token_payload_def customer_account_api_def
          no_properties_def token_world_def example_env_def)
qed

section \<open>Failures of a request-handling step\<close>

text \<open>
  Claim C9, as the code has it. In each of the three loaders the whole body is the block
  of a \<open>try\<close>: every failure within it, whatever its message, is caught, logged, and
  converted to data for local rendering. The callback and the order-list loader convert it
  to \<open>{success: false, error}\<close>; the initiation loader converts it to \<open>{error}\<close>, a
  payload with no \<open>success\<close> property.
\<close>

theorem loader_failures_are_structured:
  "(callback_try env req w = (Inl msg, w') \<longrightarrow>
      callback_loader env req w =
        (Data [(''success'', JBool False), (''error'', JStr msg)],
         w'\<lparr>effects := effects w' @ [Console_error ''Error in callback:'' msg]\<rparr>))
   \<and> (order_list_try env req w = (Inl msg, w') \<longrightarrow>
      order_list_loader env req w =
        (Data [(''success'', JBool False), (''error'', JStr msg)],
         w'\<lparr>effects := effects w' @ [Console_error ''Error loading access token:'' msg]\<rparr>))
   \<and> (auth_try env req w = (Inl msg, w') \<longrightarrow>
      auth_loader env req w =
        (Data [(''error'', JStr msg)],
         w'\<lparr>effects := effects w' @ [Console_error ''Error generating auth URL:'' msg]\<rparr>))"
  by (simp add: callback_loader_def order_list_loader_def auth_loader_def try_catch_def
        console_error_def perform_def)

theorem loader_failures_are_structured_witness:
  "callback_loader (example_env discovery_down exchange_rejected)
     (callback_request ''?code=abc&state=S'') pending_world =
     (Data [(''success'', JBool False),
            (''error'', JStr ''Failed to fetch OpenID configuration: Internal Server Error'')],
      pending_world\<lparr>effects :=
        [CodeVerifier_findUnique ''S'',
         Fetch ''https://shop.example/.well-known/openid-configuration'' None,
         Console_error ''Error in callback:''
           ''Failed to fetch OpenID configuration: Internal Server Error'']\<rparr>)
   \<and> order_list_loader (example_env discovery_down exchange_rejected)
       (order_list_request None) empty_world =
     (Data [(''success'', JBool False),
            (''error'', JStr ''No customer authentication found. Please authenticate first.'')],
      empty_world\<lparr>effects :=
        [Console_error ''Error loading access token:''
           ''No customer authentication found. Please authenticate first.'']\<rparr>)
   \<and> auth_loader (example_env discovery_down exchange_rejected) auth_request empty_world =
     (Data [(''error'', JStr ''Failed to fetch OpenID configuration: Internal Server Error'')],
      empty_world\<lparr>effects :=
        [Fetch ''https://shop.example/.well-known/openid-configuration'' None,
         Console_error ''Error generating auth URL:''
           ''Failed to fetch OpenID configuration: Internal Server Error'']\<rparr>)"
proof -
  let ?env = "example_env discovery_down exchange_rejected"
  let ?msg = "''Failed to fetch OpenID configuration: Internal Server Error''"
  let ?fetch = "Fetch ''https://shop.example/.well-known/openid-configuration'' None"
  have callback_throws:
    "callback_try ?env (callback_request ''?code=abc&state=S'') pending_world =
       (Inl ?msg, pending_world\<lparr>effects := [CodeVerifier_findUnique ''S'', ?fetch]\<rparr>)"
    by (simp add: loader_defs prisma_defs io_defs example_defs Let_def)
  have order_list_throws:
    "order_list_try ?env (order_list_request None) empty_world =
       (Inl ''No customer authentication found. Please authenticate first.'', empty_world)"
    by (simp add: loader_defs prisma_defs io_defs example_defs Let_def)
  have auth_throws:
    "auth_try ?env auth_request empty_world =
       (Inl ?msg, empty_world\<lparr>effects := [?fetch]\<rparr>)"
    by (simp add: loader_defs prisma_defs io_defs example_defs Let_def)
  show ?thesis
    using loader_failures_are_structured
            [of ?env "callback_request ''?code=abc&state=S''" pending_world ?msg
                "pending_world\<lparr>effects := [CodeVerifier_findUnique ''S'', ?fetch]\<rparr>"]
          loader_failures_are_structured
            [of ?env "order_list_request None" empty_world
                "''No customer authentication found. Please authenticate first.''" empty_world]
          loader_failures_are_structured
            [of ?env auth_request empty_world ?msg "empty_world\<lparr>effects := [?fetch]\<rparr>"]
          callback_throws order_list_throws auth_throws
    by (simp add: empty_world_def pending_world_def)
qed

text \<open>
  The claim as the specification states it fails on the initiation route: when the
  discovery fails, the loader's data has the \<open>error\<close> property and no \<open>success\<close>
  property (it reads as \<open>undefined\<close>, not as \<open>false\<close>).
\<close>

theorem auth_error_payload_has_no_success:
  "property (fst (auth_loader (example_env discovery_down exchange_rejected) auth_request
                    empty_world)) ''error''
     = JStr ''Failed to fetch OpenID configuration: Internal Server Error''
   \<and> property (fst (auth_loader (example_env discovery_down exchange_rejected) auth_request
                    empty_world)) ''success''
     = JUndefined"
  by (simp add: loader_defs prisma_defs io_defs example_defs Let_def property_def)

end
